theory Spec2Isabelle
  imports Main "HOL-Library.Word"
begin

section \<open>The GC safepoint manager of package gc\<close>

text \<open>
  A shallow embedding of the \<open>gcManager\<close> of package \<open>gc\<close>: its constructor and its three
  methods \<open>TryUpdateGCSafePoint\<close>, \<open>CheckStaleCheckpointTs\<close> and \<open>IgnoreFailedChangeFeed\<close>.
  The manager talks to two collaborators, the PD client (through \<open>SetServiceGCSafepoint\<close>)
  and the PD clock, and reads the wall clock. Each method is a function of the manager's
  fields and of what the collaborators and the clock answer during the call; it returns
  the manager afterwards, the Go return value, the requests sent to PD and the log lines
  written.
\<close>

subsection \<open>Timestamps, instants and durations\<close>

text \<open>
  \<open>model.Ts\<close> is Go's \<open>uint64\<close>: arithmetic wraps modulo \<open>2 ^ 64\<close> and \<open><\<close> is the unsigned
  order, which is the order of \<open>64 word\<close>.
\<close>

type_synonym Ts = "64 word"

text \<open>
  \<open>time.Duration\<close> is Go's \<open>int64\<close>, a number of nanoseconds: arithmetic wraps and
  comparison is signed, so two durations are compared through \<open>sint\<close>.
\<close>

type_synonym Duration = "64 word"

text \<open>
  A \<open>time.Time\<close> is an instant. It is kept as the number of nanoseconds since the Unix
  epoch, an unbounded integer; the monotonic reading that \<open>time.Now\<close> carries is not
  distinguished from the wall clock.
\<close>

type_synonym Time = int

definition Nanosecond :: Duration where
  "Nanosecond = 1"

definition Millisecond :: Duration where
  "Millisecond = 1000000 * Nanosecond"

definition Second :: Duration where
  "Second = 1000 * Millisecond"

definition Hour :: Duration where
  "Hour = 3600 * Second"

definition minDuration :: int where
  "minDuration = - (2 ^ 63)"

definition maxDuration :: int where
  "maxDuration = 2 ^ 63 - 1"

text \<open>
  \<open>t.Sub(u)\<close> of the standard library is the duration \<open>t - u\<close>; when that does not fit a
  \<open>Duration\<close> the largest (or smallest) duration is returned. \<open>time.Since(u)\<close> is
  \<open>time.Now().Sub(u)\<close>; the clock reading is the first argument here.
\<close>

definition time_Sub :: "Time \<Rightarrow> Time \<Rightarrow> Duration" where
  "time_Sub t u =
     (let d = t - u
      in if maxDuration < d then word_of_int maxDuration
         else if d < minDuration then word_of_int minDuration
         else word_of_int d)"

definition time_Since :: "Time \<Rightarrow> Time \<Rightarrow> Duration" where
  "time_Since now u = time_Sub now u"

text \<open>
  The zero value \<open>time.Time{}\<close>, which a field of type \<open>time.Time\<close> holds until it is
  assigned: January 1 of year 1, 62135596800 seconds before the Unix epoch.
\<close>

definition zeroTime :: Time where
  "zeroTime = - 62135596800 * 1000000000"

subsection \<open>Package constants and variables\<close>

text \<open>
  \<open>const gcTTL = 24 * time.Hour\<close>. The manager also has a field called \<open>gcTTL\<close>; the
  package constant is \<open>const_gcTTL\<close> here.
\<close>

definition const_gcTTL :: Duration where
  "const_gcTTL = 24 * Hour"

text \<open>
  \<open>var gcSafepointUpdateInterval = 1 * time.Minute\<close> is a package variable. The methods
  below take its current value as their first argument; this is the value it is
  initialised with.
\<close>

definition gcSafepointUpdateInterval_init :: Duration where
  "gcSafepointUpdateInterval_init = 1 * (60 * Second)"

subsection \<open>The manager and what surrounds it\<close>

text \<open>
  The fields of \<open>gcManager\<close>. \<open>gcTTL\<close> is an \<open>int64\<close> number of seconds. The two handles
  \<open>pdClient\<close> and \<open>pdClock\<close> are not data of the manager: what they answer is an argument
  of the method that asks them.
\<close>

record gcManager =
  gcServiceID :: string
  gcTTL :: "64 word"
  lastUpdatedTime :: Time
  lastSucceededTime :: Time
  lastSafePointTs :: Ts

text \<open>
  The errors a collaborator may answer with. \<open>SetServiceGCSafepoint\<close> and
  \<open>pdClock.CurrentTime\<close> both return a Go \<open>error\<close>; a cancelled and an expired context are
  told apart from every other failure.
\<close>

datatype upstream_error =
    ContextCanceled
  | ContextDeadlineExceeded
  | OtherFailure string

text \<open>The errors the manager itself returns.\<close>

datatype gc_error =
    ErrUpdateServiceSafepointFailed upstream_error
  | ErrSnapshotLostByGC Ts Ts

text \<open>
  One call of \<open>SetServiceGCSafepoint(ctx, m.pdClient, m.gcServiceID, m.gcTTL, checkpointTs)\<close>,
  by its arguments.
\<close>

record push_request =
  reqServiceID :: string
  reqTTL :: "64 word"
  reqSafePoint :: Ts

text \<open>The log lines of the three methods.\<close>

datatype log_entry =
    Warn_updateGCSafePoint_failed Ts upstream_error
  | Info_update_gc_safe_point_success Ts
  | Warn_gc_safe_point_larger_than_checkpointTs Ts Ts
  | Warn_failed_to_get_ts string upstream_error

text \<open>
  What a method call leaves behind: the manager after the call, the value returned, the
  requests sent to PD in order, and the log lines in order.
\<close>

record 'r outcome =
  mgr :: gcManager
  ret :: 'r
  pushes :: "push_request list"
  logs :: "log_entry list"

text \<open>
  What \<open>TryUpdateGCSafePoint\<close> observes while it runs, in program order: the clock read
  by \<open>time.Since(m.lastUpdatedTime)\<close>, the clock read by the \<open>time.Now()\<close> stored in
  \<open>lastUpdatedTime\<close>, the answer of \<open>SetServiceGCSafepoint\<close> (\<open>Inl\<close> its error, \<open>Inr\<close> the
  safepoint PD reports), the clock read by \<open>time.Since(m.lastSucceededTime)\<close>, and the
  clock read by the \<open>time.Now()\<close> stored in \<open>lastSucceededTime\<close>. A run that returns early
  does not look at the later ones.
\<close>

record try_env =
  nowCheck :: Time
  nowAttempt :: Time
  pushResponse :: "upstream_error + Ts"
  nowFailure :: Time
  nowSuccess :: Time

subsection \<open>NewManager\<close>

text \<open>
  \<open>NewManager\<close> with the clock reading of its \<open>time.Now()\<close> and the \<open>GcTTL\<close> of the global
  server configuration. \<open>failpoint.Inject\<close> is a marker function with an empty body, so
  the closure passed to it does not run. The fields not named in the composite literal
  hold their zero values.
\<close>

definition NewManager :: "string \<Rightarrow> Time \<Rightarrow> 64 word \<Rightarrow> gcManager" where
  "NewManager serviceID now serverConfig_GcTTL =
     \<lparr> gcServiceID = serviceID,
       gcTTL = serverConfig_GcTTL,
       lastUpdatedTime = zeroTime,
       lastSucceededTime = now,
       lastSafePointTs = 0 \<rparr>"

subsection \<open>TryUpdateGCSafePoint\<close>

text \<open>
  The method, branch by branch. The first argument is the current value of the package
  variable \<open>gcSafepointUpdateInterval\<close>. The early return leaves the manager untouched
  and sends nothing. Otherwise \<open>lastUpdatedTime\<close> is assigned before the request goes
  out, and the answer of \<open>SetServiceGCSafepoint\<close> decides the rest: on an error the
  warning is logged and the error is wrapped and returned only if
  \<open>time.Since(m.lastSucceededTime) >= time.Second*time.Duration(m.gcTTL)\<close>, a comparison
  of two \<open>int64\<close> values whose right side is a wrapping product; on success the two log
  conditions are tested one after the other and the last two fields are assigned. The
  \<open>failpoint.Inject\<close> between them is the marker with the empty body again.
\<close>

definition TryUpdateGCSafePoint ::
  "Duration \<Rightarrow> try_env \<Rightarrow> gcManager \<Rightarrow> Ts \<Rightarrow> bool \<Rightarrow> gc_error option outcome" where
  "TryUpdateGCSafePoint gcSafepointUpdateInterval env m checkpointTs forceUpdate =
     (if sint (time_Since (nowCheck env) (lastUpdatedTime m)) < sint gcSafepointUpdateInterval
         \<and> \<not> forceUpdate
      then \<lparr> mgr = m, ret = None, pushes = [], logs = [] \<rparr>
      else
        let m1 = m \<lparr> lastUpdatedTime := nowAttempt env \<rparr>;
            req = \<lparr> reqServiceID = gcServiceID m1, reqTTL = gcTTL m1,
                    reqSafePoint = checkpointTs \<rparr>
        in case pushResponse env of
             Inl err \<Rightarrow>
               (if sint (Second * gcTTL m1)
                     \<le> sint (time_Since (nowFailure env) (lastSucceededTime m1))
                then \<lparr> mgr = m1, ret = Some (ErrUpdateServiceSafepointFailed err),
                       pushes = [req],
                       logs = [Warn_updateGCSafePoint_failed checkpointTs err] \<rparr>
                else \<lparr> mgr = m1, ret = None, pushes = [req],
                       logs = [Warn_updateGCSafePoint_failed checkpointTs err] \<rparr>)
           | Inr actual \<Rightarrow>
               \<lparr> mgr = m1 \<lparr> lastSafePointTs := actual, lastSucceededTime := nowSuccess env \<rparr>,
                 ret = None,
                 pushes = [req],
                 logs = (if actual = checkpointTs
                         then [Info_update_gc_safe_point_success checkpointTs] else [])
                      @ (if checkpointTs < actual
                         then [Warn_gc_safe_point_larger_than_checkpointTs actual checkpointTs]
                         else []) \<rparr>)"

subsection \<open>CheckStaleCheckpointTs\<close>

text \<open>
  The changefeed identifier is not used by the method; it is kept as an argument of any
  type.
\<close>

definition CheckStaleCheckpointTs ::
  "gcManager \<Rightarrow> 'id \<Rightarrow> Ts \<Rightarrow> gc_error option outcome" where
  "CheckStaleCheckpointTs m changefeedID checkpointTs =
     (let gcSafepointUpperBound = checkpointTs - 1
      in if gcSafepointUpperBound < lastSafePointTs m
         then \<lparr> mgr = m,
                ret = Some (ErrSnapshotLostByGC checkpointTs (lastSafePointTs m)),
                pushes = [], logs = [] \<rparr>
         else \<lparr> mgr = m, ret = None, pushes = [], logs = [] \<rparr>)"

subsection \<open>IgnoreFailedChangeFeed\<close>

text \<open>
  \<open>oracle.GetTimeFromTS\<close> belongs to the TiKV client library, not to this package; the
  method takes it as its first argument. Its second argument is the answer of
  \<open>m.pdClock.CurrentTime()\<close>.
\<close>

definition IgnoreFailedChangeFeed ::
  "(Ts \<Rightarrow> Time) \<Rightarrow> upstream_error + Time \<Rightarrow> gcManager \<Rightarrow> Ts \<Rightarrow> bool outcome" where
  "IgnoreFailedChangeFeed oracle_GetTimeFromTS currentTime m checkpointTs =
     (case currentTime of
        Inl err \<Rightarrow>
          \<lparr> mgr = m, ret = False, pushes = [],
            logs = [Warn_failed_to_get_ts (gcServiceID m) err] \<rparr>
      | Inr pdTime \<Rightarrow>
          (let gcSafepointUpperBound = checkpointTs - 1
           in \<lparr> mgr = m,
                ret = (sint const_gcTTL
                        < sint (time_Sub pdTime (oracle_GetTimeFromTS gcSafepointUpperBound))),
                pushes = [], logs = [] \<rparr>))"

text \<open>
  The timestamp encoding of the TiKV oracle, for concrete runs: the upper 46 bits of a
  timestamp are milliseconds since the Unix epoch, the lower 18 bits a logical counter.
\<close>

definition GetTimeFromTS :: "Ts \<Rightarrow> Time" where
  "GetTimeFromTS ts = uint (drop_bit 18 ts) * 1000000"

definition ComposeTS :: "int \<Rightarrow> int \<Rightarrow> Ts" where
  "ComposeTS physical logical = word_of_int (physical * 2 ^ 18 + logical)"

subsection \<open>Concrete runs\<close>

text \<open>
  Inputs for the concrete runs below. \<open>env_at t r\<close> is a call of \<open>TryUpdateGCSafePoint\<close> in
  which every clock reading is \<open>t\<close> and PD answers \<open>r\<close>. \<open>ex_start\<close> is
  2023-11-14 22:13:20 UTC; \<open>ex_manager\<close> is created then with a TTL of one day, and
  \<open>ex_huge_ttl_manager\<close> with a TTL of 9223372037 seconds, the least number of seconds whose
  nanoseconds exceed an \<open>int64\<close>.
\<close>

definition env_at :: "Time \<Rightarrow> upstream_error + Ts \<Rightarrow> try_env" where
  "env_at t r =
     \<lparr> nowCheck = t, nowAttempt = t, pushResponse = r, nowFailure = t, nowSuccess = t \<rparr>"

definition seconds :: "int \<Rightarrow> int" where
  "seconds n = n * 1000000000"

definition ex_start :: Time where
  "ex_start = 1700000000 * 1000000000"

definition ex_manager :: gcManager where
  "ex_manager = NewManager ''ticdc'' ex_start 86400"

definition ex_huge_ttl_manager :: gcManager where
  "ex_huge_ttl_manager = NewManager ''ticdc'' ex_start 9223372037"

section \<open>Facts about durations\<close>

lemma sint_time_Sub:
  "sint (time_Sub t u) = max minDuration (min maxDuration (t - u))"
proof -
  have r: "sint (word_of_int d :: 64 word) = d"
    if "- (2 ^ 63) \<le> d" "d < 2 ^ 63" for d :: int
    using that by (simp add: sint_sbintrunc' signed_take_bit_int_eq_self)
  consider "2 ^ 63 - 1 < t - u" | "t - u < - (2 ^ 63)"
    | "- (2 ^ 63) \<le> t - u" "t - u \<le> 2 ^ 63 - 1"
    by linarith
  then show ?thesis
  proof cases
    case 1
    then show ?thesis
      by (simp add: time_Sub_def minDuration_def maxDuration_def)
  next
    case 2
    then show ?thesis
      by (simp add: time_Sub_def minDuration_def maxDuration_def)
  next
    case 3
    then have "sint (word_of_int (t - u) :: 64 word) = t - u"
      by (intro r) simp_all
    with 3 show ?thesis
      by (simp add: time_Sub_def minDuration_def maxDuration_def del: of_int_diff)
  qed
qed

lemma sint_time_Since:
  "sint (time_Since now u) = max minDuration (min maxDuration (now - u))"
  by (simp add: time_Since_def sint_time_Sub)

lemma sint_range64:
  "minDuration \<le> sint (d :: 64 word) \<and> sint d \<le> maxDuration"
  using sint_range_size [of d] by (simp add: minDuration_def maxDuration_def word_size)

lemma sint_Second: "sint Second = 1000000000"
  by (simp add: Second_def Millisecond_def Nanosecond_def)

lemma sint_const_gcTTL: "sint const_gcTTL = 86400000000000"
  by (simp add: const_gcTTL_def Hour_def Second_def Millisecond_def Nanosecond_def)

lemma sint_interval_init: "sint gcSafepointUpdateInterval_init = 60000000000"
  by (simp add: gcSafepointUpdateInterval_init_def Second_def Millisecond_def Nanosecond_def)

lemma ttl_no_overflow:
  assumes "- 9223372036 \<le> sint (t :: 64 word)" "sint t \<le> 9223372036"
  shows "sint (Second * t) = 1000000000 * sint t"
proof -
  have "sint (Second * t) = signed_take_bit 63 (sint Second * sint t)"
    by (simp add: sint_word_ariths)
  also have "\<dots> = signed_take_bit 63 (1000000000 * sint t)"
    by (simp only: sint_Second)
  also have "\<dots> = 1000000000 * sint t"
    using assms by (intro signed_take_bit_int_eq_self) simp_all
  finally show ?thesis .
qed

lemma saturated_ge_iff:
  assumes "minDuration < x" "x \<le> maxDuration"
  shows "x \<le> max minDuration (min maxDuration d) \<longleftrightarrow> x \<le> d"
  using assms by (auto simp: max_def min_def)

lemma saturated_gt_iff:
  assumes "minDuration \<le> x" "x < maxDuration"
  shows "x < max minDuration (min maxDuration d) \<longleftrightarrow> x < d"
  using assms by (auto simp: max_def min_def)

lemma ttl_instant_iff:
  assumes "- 9223372036 \<le> sint (gcTTL m)" "sint (gcTTL m) \<le> 9223372036"
  shows "sint (Second * gcTTL m) \<le> sint (time_Since now (lastSucceededTime m))
         \<longleftrightarrow> lastSucceededTime m + 1000000000 * sint (gcTTL m) \<le> now"
proof -
  let ?x = "1000000000 * sint (gcTTL m)"
  have "minDuration < ?x" "?x \<le> maxDuration"
    using assms by (simp_all add: minDuration_def maxDuration_def)
  then have "?x \<le> max minDuration (min maxDuration (now - lastSucceededTime m))
             \<longleftrightarrow> ?x \<le> now - lastSucceededTime m"
    by (rule saturated_ge_iff)
  then show ?thesis
    using assms by (simp add: ttl_no_overflow sint_time_Since) linarith
qed

lemma age_exceeds_iff:
  "sint const_gcTTL < sint (time_Sub t u) \<longleftrightarrow> 86400000000000 < t - u"
proof -
  have "(86400000000000 :: int) < max minDuration (min maxDuration (t - u))
        \<longleftrightarrow> 86400000000000 < t - u"
    by (rule saturated_gt_iff) (simp_all add: minDuration_def maxDuration_def)
  then show ?thesis
    by (simp add: sint_const_gcTTL sint_time_Sub)
qed

lemma saturated_ge:
  assumes "x \<le> maxDuration" "x \<le> d"
  shows "x \<le> max minDuration (min maxDuration d)"
  using assms by (simp add: max_def min_def)

section \<open>The paths through the methods\<close>

text \<open>The three ways through \<open>TryUpdateGCSafePoint\<close>, each with all it leaves behind.\<close>

lemma TryUpdate_skipped:
  assumes "sint (time_Since (nowCheck env) (lastUpdatedTime m)) < sint interval"
    and "\<not> forceUpdate"
  shows "TryUpdateGCSafePoint interval env m checkpointTs forceUpdate
         = \<lparr> mgr = m, ret = None, pushes = [], logs = [] \<rparr>"
  using assms by (simp add: TryUpdateGCSafePoint_def)

lemma TryUpdate_push_failed:
  assumes "forceUpdate \<or> sint interval \<le> sint (time_Since (nowCheck env) (lastUpdatedTime m))"
    and "pushResponse env = Inl err"
  shows "TryUpdateGCSafePoint interval env m checkpointTs forceUpdate
         = \<lparr> mgr = m \<lparr> lastUpdatedTime := nowAttempt env \<rparr>,
             ret = (if sint (Second * gcTTL m)
                        \<le> sint (time_Since (nowFailure env) (lastSucceededTime m))
                    then Some (ErrUpdateServiceSafepointFailed err) else None),
             pushes = [\<lparr> reqServiceID = gcServiceID m, reqTTL = gcTTL m,
                         reqSafePoint = checkpointTs \<rparr>],
             logs = [Warn_updateGCSafePoint_failed checkpointTs err] \<rparr>"
  using assms by (auto simp: TryUpdateGCSafePoint_def Let_def)

lemma TryUpdate_push_succeeded:
  assumes "forceUpdate \<or> sint interval \<le> sint (time_Since (nowCheck env) (lastUpdatedTime m))"
    and "pushResponse env = Inr actual"
  shows "TryUpdateGCSafePoint interval env m checkpointTs forceUpdate
         = \<lparr> mgr = m \<lparr> lastUpdatedTime := nowAttempt env, lastSafePointTs := actual,
                       lastSucceededTime := nowSuccess env \<rparr>,
             ret = None,
             pushes = [\<lparr> reqServiceID = gcServiceID m, reqTTL = gcTTL m,
                         reqSafePoint = checkpointTs \<rparr>],
             logs = (if actual = checkpointTs
                     then [Info_update_gc_safe_point_success checkpointTs] else [])
                  @ (if checkpointTs < actual
                     then [Warn_gc_safe_point_larger_than_checkpointTs actual checkpointTs]
                     else []) \<rparr>"
  using assms by (auto simp: TryUpdateGCSafePoint_def Let_def)

lemma CheckStale_outcome:
  "CheckStaleCheckpointTs m cf cp
   = \<lparr> mgr = m,
       ret = (if cp - 1 < lastSafePointTs m
              then Some (ErrSnapshotLostByGC cp (lastSafePointTs m)) else None),
       pushes = [], logs = [] \<rparr>"
  by (simp add: CheckStaleCheckpointTs_def Let_def)

lemma Ignore_mgr: "mgr (IgnoreFailedChangeFeed g ct m cp) = m"
  by (simp add: IgnoreFailedChangeFeed_def Let_def split: sum.splits)

lemma Ignore_clock_failed:
  "IgnoreFailedChangeFeed getTime (Inl err) m cp
   = \<lparr> mgr = m, ret = False, pushes = [],
       logs = [Warn_failed_to_get_ts (gcServiceID m) err] \<rparr>"
  by (simp add: IgnoreFailedChangeFeed_def)

lemma Ignore_clock_read:
  "IgnoreFailedChangeFeed getTime (Inr pdTime) m cp
   = \<lparr> mgr = m,
       ret = (sint const_gcTTL < sint (time_Sub pdTime (getTime (cp - 1)))),
       pushes = [], logs = [] \<rparr>"
  by (simp add: IgnoreFailedChangeFeed_def Let_def)

section \<open>The claims\<close>

text \<open>
  Claim C1. \<open>CheckStaleCheckpointTs\<close> returns an error exactly when \<open>checkpointTs - 1\<close>,
  computed in \<open>uint64\<close>, is below the stored \<open>lastSafePointTs\<close>; the error is
  \<open>ErrSnapshotLostByGC\<close> with the requested checkpoint and the stored safepoint. Whatever it
  returns, the manager is the same afterwards and nothing is sent to PD.
\<close>

theorem CheckStaleCheckpointTs_fails_iff:
  "(ret (CheckStaleCheckpointTs m changefeedID cp) \<noteq> None \<longleftrightarrow> cp - 1 < lastSafePointTs m)
   \<and> (cp - 1 < lastSafePointTs m \<longrightarrow>
        ret (CheckStaleCheckpointTs m changefeedID cp)
          = Some (ErrSnapshotLostByGC cp (lastSafePointTs m)))
   \<and> mgr (CheckStaleCheckpointTs m changefeedID cp) = m
   \<and> pushes (CheckStaleCheckpointTs m changefeedID cp) = []"
  by (simp add: CheckStale_outcome)

theorem CheckStaleCheckpointTs_fails_iff_witness:
  "(100 :: Ts) - 1 < lastSafePointTs (ex_manager \<lparr> lastSafePointTs := 100 \<rparr>)
   \<and> ret (CheckStaleCheckpointTs (ex_manager \<lparr> lastSafePointTs := 100 \<rparr>) ''cf'' 100)
       = Some (ErrSnapshotLostByGC 100 100)
   \<and> \<not> (102 :: Ts) - 1 < lastSafePointTs (ex_manager \<lparr> lastSafePointTs := 100 \<rparr>)
   \<and> ret (CheckStaleCheckpointTs (ex_manager \<lparr> lastSafePointTs := 100 \<rparr>) ''cf'' 102) = None"
proof -
  let ?m = "ex_manager \<lparr> lastSafePointTs := 100 \<rparr>"
  have a: "(100 :: Ts) - 1 < lastSafePointTs ?m" by simp
  have b: "\<not> (102 :: Ts) - 1 < lastSafePointTs ?m" by simp
  from CheckStaleCheckpointTs_fails_iff [of ?m "''cf''" 100] CheckStaleCheckpointTs_fails_iff [of ?m "''cf''" 102] a b
  show ?thesis by auto
qed

text \<open>
  Claim C2 as stated fails in its second part: the guard applies to the first of the two
  calls as well. After an attempt at one second, two unforced calls at two and at three
  seconds are within one update interval of each other and send no request at all.
\<close>

theorem TryUpdateGCSafePoint_two_calls_no_push:
  "sint (time_Since (nowCheck (env_at (ex_start + seconds 3) (Inr 130)))
                    (nowCheck (env_at (ex_start + seconds 2) (Inr 120))))
     < sint gcSafepointUpdateInterval_init
   \<and> pushes (TryUpdateGCSafePoint gcSafepointUpdateInterval_init
               (env_at (ex_start + seconds 2) (Inr 120))
               (ex_manager \<lparr> lastUpdatedTime := ex_start + seconds 1 \<rparr>) 120 False)
       @ pushes (TryUpdateGCSafePoint gcSafepointUpdateInterval_init
                   (env_at (ex_start + seconds 3) (Inr 130))
                   (mgr (TryUpdateGCSafePoint gcSafepointUpdateInterval_init
                           (env_at (ex_start + seconds 2) (Inr 120))
                           (ex_manager \<lparr> lastUpdatedTime := ex_start + seconds 1 \<rparr>)
                           120 False))
                   130 False)
       = []"
  by (simp add: TryUpdateGCSafePoint_def Let_def env_at_def ex_manager_def
      NewManager_def sint_time_Since sint_interval_init ex_start_def seconds_def
      minDuration_def maxDuration_def)

text \<open>
  Claim C2, amended. A call without \<open>forceUpdate\<close> whose \<open>time.Since(lastUpdatedTime)\<close> is
  below the update interval returns \<open>nil\<close> at once: nothing is sent to PD and the manager
  is unchanged. So when the first of two unforced calls is itself due, that is its
  \<open>time.Since(lastUpdatedTime)\<close> has reached the update interval, and the second follows
  within one interval of the attempt the first recorded, the two calls together send
  exactly one request, that of the first.
\<close>

theorem TryUpdateGCSafePoint_rate_limited:
  "(sint (time_Since (nowCheck env) (lastUpdatedTime m)) < sint interval \<longrightarrow>
      TryUpdateGCSafePoint interval env m cp False
        = \<lparr> mgr = m, ret = None, pushes = [], logs = [] \<rparr>)
   \<and> (sint interval \<le> sint (time_Since (nowCheck env1) (lastUpdatedTime m))
        \<and> sint (time_Since (nowCheck env2) (nowAttempt env1)) < sint interval \<longrightarrow>
      pushes (TryUpdateGCSafePoint interval env1 m cp1 False)
        @ pushes (TryUpdateGCSafePoint interval env2
                    (mgr (TryUpdateGCSafePoint interval env1 m cp1 False)) cp2 False)
        = [\<lparr> reqServiceID = gcServiceID m, reqTTL = gcTTL m, reqSafePoint = cp1 \<rparr>]
      \<and> ret (TryUpdateGCSafePoint interval env2
                (mgr (TryUpdateGCSafePoint interval env1 m cp1 False)) cp2 False) = None)"
proof -
  let ?o1 = "TryUpdateGCSafePoint interval env1 m cp1 False"
  let ?o2 = "TryUpdateGCSafePoint interval env2 (mgr ?o1) cp2 False"
  let ?req = "\<lparr> reqServiceID = gcServiceID m, reqTTL = gcTTL m, reqSafePoint = cp1 \<rparr>"
  have one: "TryUpdateGCSafePoint interval env m cp False
             = \<lparr> mgr = m, ret = None, pushes = [], logs = [] \<rparr>"
    if "sint (time_Since (nowCheck env) (lastUpdatedTime m)) < sint interval"
    using that by (simp add: TryUpdate_skipped)
  have two: "pushes ?o1 @ pushes ?o2 = [?req] \<and> ret ?o2 = None"
    if h1: "sint interval \<le> sint (time_Since (nowCheck env1) (lastUpdatedTime m))"
      and h2: "sint (time_Since (nowCheck env2) (nowAttempt env1)) < sint interval"
  proof -
    have first: "pushes ?o1 = [?req] \<and> lastUpdatedTime (mgr ?o1) = nowAttempt env1"
    proof (cases "pushResponse env1")
      case (Inl err)
      with h1 show ?thesis by (simp add: TryUpdate_push_failed)
    next
      case (Inr actual)
      with h1 show ?thesis by (simp add: TryUpdate_push_succeeded)
    qed
    with h2 have "?o2 = \<lparr> mgr = mgr ?o1, ret = None, pushes = [], logs = [] \<rparr>"
      by (intro TryUpdate_skipped) simp_all
    with first show ?thesis by simp
  qed
  from one two show ?thesis by blast
qed

theorem TryUpdateGCSafePoint_rate_limited_witness:
  "sint gcSafepointUpdateInterval_init
     \<le> sint (time_Since (nowCheck (env_at (ex_start + seconds 1) (Inr 100)))
                          (lastUpdatedTime ex_manager))
   \<and> sint (time_Since (nowCheck (env_at (ex_start + seconds 31) (Inr 130)))
                       (nowAttempt (env_at (ex_start + seconds 1) (Inr 100))))
       < sint gcSafepointUpdateInterval_init
   \<and> pushes (TryUpdateGCSafePoint gcSafepointUpdateInterval_init
               (env_at (ex_start + seconds 1) (Inr 100)) ex_manager 100 False)
       @ pushes (TryUpdateGCSafePoint gcSafepointUpdateInterval_init
                   (env_at (ex_start + seconds 31) (Inr 130))
                   (mgr (TryUpdateGCSafePoint gcSafepointUpdateInterval_init
                           (env_at (ex_start + seconds 1) (Inr 100)) ex_manager 100 False))
                   130 False)
       = [\<lparr> reqServiceID = ''ticdc'', reqTTL = 86400, reqSafePoint = 100 \<rparr>]"
proof -
  let ?e1 = "env_at (ex_start + seconds 1) (Inr 100)"
  let ?e2 = "env_at (ex_start + seconds 31) (Inr 130)"
  have a: "sint gcSafepointUpdateInterval_init
             \<le> sint (time_Since (nowCheck ?e1) (lastUpdatedTime ex_manager))"
    by (simp add: sint_interval_init sint_time_Since env_at_def ex_manager_def NewManager_def
        ex_start_def seconds_def zeroTime_def minDuration_def maxDuration_def)
  have b: "sint (time_Since (nowCheck ?e2) (nowAttempt ?e1)) < sint gcSafepointUpdateInterval_init"
    by (simp add: sint_interval_init sint_time_Since env_at_def
        ex_start_def seconds_def minDuration_def maxDuration_def)
  have c: "gcServiceID ex_manager = ''ticdc'' \<and> gcTTL ex_manager = 86400"
    by (simp add: ex_manager_def NewManager_def)
  from TryUpdateGCSafePoint_rate_limited [of ?e1 ex_manager gcSafepointUpdateInterval_init 100 ?e1 ?e2 100 130] a b c
  show ?thesis by simp
qed

text \<open>
  Claim C3 as stated fails for a TTL whose nanoseconds do not fit a \<open>Duration\<close>: with a TTL
  of 9223372037 seconds the product \<open>time.Second * time.Duration(m.gcTTL)\<close> wraps to a negative
  duration, and a push that fails five seconds after the last success is already fatal.
\<close>

theorem TryUpdateGCSafePoint_push_failure_ttl_overflow:
  "pushResponse (env_at (ex_start + seconds 5) (Inl (OtherFailure ''pd unavailable'')))
     = Inl (OtherFailure ''pd unavailable'')
   \<and> nowFailure (env_at (ex_start + seconds 5) (Inl (OtherFailure ''pd unavailable'')))
       < lastSucceededTime ex_huge_ttl_manager
         + 1000000000 * sint (gcTTL ex_huge_ttl_manager)
   \<and> sint (time_Since
             (nowFailure (env_at (ex_start + seconds 5) (Inl (OtherFailure ''pd unavailable''))))
             (lastSucceededTime ex_huge_ttl_manager))
       < 1000000000 * sint (gcTTL ex_huge_ttl_manager)
   \<and> pushes (TryUpdateGCSafePoint gcSafepointUpdateInterval_init
               (env_at (ex_start + seconds 5) (Inl (OtherFailure ''pd unavailable'')))
               ex_huge_ttl_manager 100 False) \<noteq> []
   \<and> ret (TryUpdateGCSafePoint gcSafepointUpdateInterval_init
            (env_at (ex_start + seconds 5) (Inl (OtherFailure ''pd unavailable'')))
            ex_huge_ttl_manager 100 False)
       = Some (ErrUpdateServiceSafepointFailed (OtherFailure ''pd unavailable''))"
  by (simp add: TryUpdateGCSafePoint_def Let_def env_at_def ex_huge_ttl_manager_def
      NewManager_def sint_time_Since sint_interval_init ex_start_def seconds_def zeroTime_def
      minDuration_def maxDuration_def Second_def Millisecond_def Nanosecond_def)

text \<open>
  Claim C3, amended. Let the TTL be at most 9223372036 seconds in absolute value, so that
  it fits a \<open>Duration\<close>. When the push is attempted and fails, the call returns
  \<open>ErrUpdateServiceSafepointFailed\<close> wrapping the failure exactly when the time since
  \<open>lastSucceededTime\<close> is at least the TTL, that is when the clock has reached
  \<open>lastSucceededTime\<close> plus the TTL, and \<open>nil\<close> exactly when it is strictly before that
  instant. In both cases \<open>lastUpdatedTime\<close> holds the time of the attempt.
\<close>

theorem TryUpdateGCSafePoint_push_failure:
  assumes attempted:
      "forceUpdate \<or> sint interval \<le> sint (time_Since (nowCheck env) (lastUpdatedTime m))"
    and failed: "pushResponse env = Inl err"
    and fits: "- 9223372036 \<le> sint (gcTTL m)" "sint (gcTTL m) \<le> 9223372036"
  shows "(ret (TryUpdateGCSafePoint interval env m cp forceUpdate)
            = Some (ErrUpdateServiceSafepointFailed err)
          \<longleftrightarrow> 1000000000 * sint (gcTTL m)
                \<le> sint (time_Since (nowFailure env) (lastSucceededTime m)))
       \<and> (ret (TryUpdateGCSafePoint interval env m cp forceUpdate)
            = Some (ErrUpdateServiceSafepointFailed err)
          \<longleftrightarrow> lastSucceededTime m + 1000000000 * sint (gcTTL m) \<le> nowFailure env)
       \<and> (ret (TryUpdateGCSafePoint interval env m cp forceUpdate) = None
          \<longleftrightarrow> nowFailure env < lastSucceededTime m + 1000000000 * sint (gcTTL m))
       \<and> lastUpdatedTime (mgr (TryUpdateGCSafePoint interval env m cp forceUpdate))
           = nowAttempt env
       \<and> pushes (TryUpdateGCSafePoint interval env m cp forceUpdate)
           = [\<lparr> reqServiceID = gcServiceID m, reqTTL = gcTTL m, reqSafePoint = cp \<rparr>]"
proof -
  let ?fatal = "sint (Second * gcTTL m)
                  \<le> sint (time_Since (nowFailure env) (lastSucceededTime m))"
  have prod: "sint (Second * gcTTL m) = 1000000000 * sint (gcTTL m)"
    using fits by (rule ttl_no_overflow)
  have inst: "?fatal
              \<longleftrightarrow> lastSucceededTime m + 1000000000 * sint (gcTTL m) \<le> nowFailure env"
    using fits by (rule ttl_instant_iff)
  have r: "ret (TryUpdateGCSafePoint interval env m cp forceUpdate)
             = (if ?fatal then Some (ErrUpdateServiceSafepointFailed err) else None)"
    and u: "lastUpdatedTime (mgr (TryUpdateGCSafePoint interval env m cp forceUpdate))
             = nowAttempt env"
    and p: "pushes (TryUpdateGCSafePoint interval env m cp forceUpdate)
             = [\<lparr> reqServiceID = gcServiceID m, reqTTL = gcTTL m, reqSafePoint = cp \<rparr>]"
    by (simp_all add: TryUpdate_push_failed [OF attempted failed])
  have c1: "ret (TryUpdateGCSafePoint interval env m cp forceUpdate)
              = Some (ErrUpdateServiceSafepointFailed err) \<longleftrightarrow> ?fatal"
    by (simp add: r)
  have c2: "ret (TryUpdateGCSafePoint interval env m cp forceUpdate) = None \<longleftrightarrow> \<not> ?fatal"
    by (simp add: r)
  from c1 prod have g1: "ret (TryUpdateGCSafePoint interval env m cp forceUpdate)
            = Some (ErrUpdateServiceSafepointFailed err)
          \<longleftrightarrow> 1000000000 * sint (gcTTL m)
                \<le> sint (time_Since (nowFailure env) (lastSucceededTime m))"
    by simp
  from c1 inst have g2: "ret (TryUpdateGCSafePoint interval env m cp forceUpdate)
            = Some (ErrUpdateServiceSafepointFailed err)
          \<longleftrightarrow> lastSucceededTime m + 1000000000 * sint (gcTTL m) \<le> nowFailure env"
    by simp
  from c2 inst have g3: "ret (TryUpdateGCSafePoint interval env m cp forceUpdate) = None
          \<longleftrightarrow> nowFailure env < lastSucceededTime m + 1000000000 * sint (gcTTL m)"
    by (simp add: not_le)
  from g1 g2 g3 u p show ?thesis by blast
qed

theorem TryUpdateGCSafePoint_push_failure_witness:
  "(False \<or> sint gcSafepointUpdateInterval_init
       \<le> sint (time_Since (nowCheck (env_at (ex_start + seconds 86400) (Inl ContextDeadlineExceeded)))
                            (lastUpdatedTime ex_manager)))
   \<and> - 9223372036 \<le> sint (gcTTL ex_manager) \<and> sint (gcTTL ex_manager) \<le> 9223372036
   \<and> ret (TryUpdateGCSafePoint gcSafepointUpdateInterval_init
            (env_at (ex_start + seconds 86400) (Inl ContextDeadlineExceeded)) ex_manager 100 False)
       = Some (ErrUpdateServiceSafepointFailed ContextDeadlineExceeded)
   \<and> ret (TryUpdateGCSafePoint gcSafepointUpdateInterval_init
            (env_at (ex_start + seconds 86400 - 1) (Inl ContextDeadlineExceeded)) ex_manager 100 False)
       = None"
proof -
  let ?e1 = "env_at (ex_start + seconds 86400) (Inl ContextDeadlineExceeded)"
  let ?e2 = "env_at (ex_start + seconds 86400 - 1) (Inl ContextDeadlineExceeded)"
  have a1: "False \<or> sint gcSafepointUpdateInterval_init
             \<le> sint (time_Since (nowCheck ?e1) (lastUpdatedTime ex_manager))"
    by (simp add: sint_interval_init sint_time_Since env_at_def ex_manager_def NewManager_def
        ex_start_def seconds_def zeroTime_def minDuration_def maxDuration_def)
  have a2: "False \<or> sint gcSafepointUpdateInterval_init
             \<le> sint (time_Since (nowCheck ?e2) (lastUpdatedTime ex_manager))"
    by (simp add: sint_interval_init sint_time_Since env_at_def ex_manager_def NewManager_def
        ex_start_def seconds_def zeroTime_def minDuration_def maxDuration_def)
  have b1: "pushResponse ?e1 = Inl ContextDeadlineExceeded"
    and b2: "pushResponse ?e2 = Inl ContextDeadlineExceeded"
    by (simp_all add: env_at_def)
  have c: "- 9223372036 \<le> sint (gcTTL ex_manager)" "sint (gcTTL ex_manager) \<le> 9223372036"
    by (simp_all add: ex_manager_def NewManager_def)
  have d1: "lastSucceededTime ex_manager + 1000000000 * sint (gcTTL ex_manager) \<le> nowFailure ?e1"
    by (simp add: env_at_def ex_manager_def NewManager_def ex_start_def seconds_def)
  have d2: "nowFailure ?e2 < lastSucceededTime ex_manager + 1000000000 * sint (gcTTL ex_manager)"
    by (simp add: env_at_def ex_manager_def NewManager_def ex_start_def seconds_def)
  from TryUpdateGCSafePoint_push_failure [OF a1 b1 c, of 100] d1
  have r1: "ret (TryUpdateGCSafePoint gcSafepointUpdateInterval_init ?e1 ex_manager 100 False)
              = Some (ErrUpdateServiceSafepointFailed ContextDeadlineExceeded)"
    by blast
  from TryUpdateGCSafePoint_push_failure [OF a2 b2 c, of 100] d2
  have r2: "ret (TryUpdateGCSafePoint gcSafepointUpdateInterval_init ?e2 ex_manager 100 False) = None"
    by blast
  from a1 c r1 r2 show ?thesis by blast
qed

text \<open>
  Claim C4. When the push is attempted and PD answers with an effective safepoint, the
  call stores that safepoint in \<open>lastSafePointTs\<close>, stores the clock in
  \<open>lastSucceededTime\<close> and returns \<open>nil\<close>, however the safepoint compares to the proposed
  checkpoint. When it is larger than the checkpoint, the only trace is the warning in
  the log.
\<close>

theorem TryUpdateGCSafePoint_push_success:
  assumes attempted:
      "forceUpdate \<or> sint interval \<le> sint (time_Since (nowCheck env) (lastUpdatedTime m))"
    and succeeded: "pushResponse env = Inr effective"
  shows "lastSafePointTs (mgr (TryUpdateGCSafePoint interval env m cp forceUpdate)) = effective
       \<and> lastSucceededTime (mgr (TryUpdateGCSafePoint interval env m cp forceUpdate))
           = nowSuccess env
       \<and> ret (TryUpdateGCSafePoint interval env m cp forceUpdate) = None
       \<and> (cp < effective \<longrightarrow>
            logs (TryUpdateGCSafePoint interval env m cp forceUpdate)
              = [Warn_gc_safe_point_larger_than_checkpointTs effective cp])"
  by (simp add: TryUpdate_push_succeeded [OF attempted succeeded])

theorem TryUpdateGCSafePoint_push_success_witness:
  "(False \<or> sint gcSafepointUpdateInterval_init
       \<le> sint (time_Since (nowCheck (env_at (ex_start + seconds 1) (Inr 150)))
                            (lastUpdatedTime ex_manager)))
   \<and> pushResponse (env_at (ex_start + seconds 1) (Inr 150)) = Inr 150
   \<and> (100 :: Ts) < 150
   \<and> lastSafePointTs (mgr (TryUpdateGCSafePoint gcSafepointUpdateInterval_init
                            (env_at (ex_start + seconds 1) (Inr 150)) ex_manager 100 False)) = 150
   \<and> lastSucceededTime (mgr (TryUpdateGCSafePoint gcSafepointUpdateInterval_init
                              (env_at (ex_start + seconds 1) (Inr 150)) ex_manager 100 False))
       = ex_start + seconds 1
   \<and> ret (TryUpdateGCSafePoint gcSafepointUpdateInterval_init
            (env_at (ex_start + seconds 1) (Inr 150)) ex_manager 100 False) = None
   \<and> logs (TryUpdateGCSafePoint gcSafepointUpdateInterval_init
             (env_at (ex_start + seconds 1) (Inr 150)) ex_manager 100 False)
       = [Warn_gc_safe_point_larger_than_checkpointTs 150 100]"
proof -
  let ?e = "env_at (ex_start + seconds 1) (Inr 150)"
  have a: "False \<or> sint gcSafepointUpdateInterval_init
             \<le> sint (time_Since (nowCheck ?e) (lastUpdatedTime ex_manager))"
    by (simp add: sint_interval_init sint_time_Since env_at_def ex_manager_def NewManager_def
        ex_start_def seconds_def zeroTime_def minDuration_def maxDuration_def)
  have b: "pushResponse ?e = Inr 150" and n: "nowSuccess ?e = ex_start + seconds 1"
    by (simp_all add: env_at_def)
  have c: "(100 :: Ts) < 150" by simp
  from TryUpdateGCSafePoint_push_success [OF a b, of 100] a b c n show ?thesis by simp
qed

text \<open>
  Claim C5. If a call of \<open>TryUpdateGCSafePoint\<close> changes \<open>lastSafePointTs\<close>, then a request
  was sent and the new value is the safepoint PD answered with. A skipped call and a
  call whose push fails leave the field as it was, and so do \<open>CheckStaleCheckpointTs\<close>
  and \<open>IgnoreFailedChangeFeed\<close>.
\<close>

theorem lastSafePointTs_written_only_on_success:
  "(lastSafePointTs (mgr (TryUpdateGCSafePoint interval env m cp forceUpdate))
      \<noteq> lastSafePointTs m \<longrightarrow>
      pushes (TryUpdateGCSafePoint interval env m cp forceUpdate) \<noteq> []
      \<and> pushResponse env
          = Inr (lastSafePointTs (mgr (TryUpdateGCSafePoint interval env m cp forceUpdate))))
   \<and> (sint (time_Since (nowCheck env) (lastUpdatedTime m)) < sint interval \<and> \<not> forceUpdate
        \<longrightarrow> lastSafePointTs (mgr (TryUpdateGCSafePoint interval env m cp forceUpdate))
              = lastSafePointTs m)
   \<and> (\<forall>err. pushResponse env = Inl err
        \<longrightarrow> lastSafePointTs (mgr (TryUpdateGCSafePoint interval env m cp forceUpdate))
              = lastSafePointTs m)
   \<and> lastSafePointTs (mgr (CheckStaleCheckpointTs m changefeedID cp)) = lastSafePointTs m
   \<and> lastSafePointTs (mgr (IgnoreFailedChangeFeed getTime currentTime m cp))
       = lastSafePointTs m"
proof -
  let ?o = "TryUpdateGCSafePoint interval env m cp forceUpdate"
  let ?skip = "sint (time_Since (nowCheck env) (lastUpdatedTime m)) < sint interval
               \<and> \<not> forceUpdate"
  have skip: "lastSafePointTs (mgr ?o) = lastSafePointTs m" if ?skip
    using that by (simp add: TryUpdate_skipped)
  have fail: "lastSafePointTs (mgr ?o) = lastSafePointTs m" if "pushResponse env = Inl err" for err
  proof (cases ?skip)
    case True
    then show ?thesis by (rule skip)
  next
    case False
    then have "forceUpdate \<or> sint interval \<le> sint (time_Since (nowCheck env) (lastUpdatedTime m))"
      by auto
    from TryUpdate_push_failed [OF this that] show ?thesis by simp
  qed
  have change: "pushes ?o \<noteq> [] \<and> pushResponse env = Inr (lastSafePointTs (mgr ?o))"
    if ne: "lastSafePointTs (mgr ?o) \<noteq> lastSafePointTs m"
  proof -
    from ne skip have "\<not> ?skip" by blast
    then have att: "forceUpdate
                    \<or> sint interval \<le> sint (time_Since (nowCheck env) (lastUpdatedTime m))"
      by auto
    from ne fail obtain actual where r: "pushResponse env = Inr actual"
      by (cases "pushResponse env") auto
    from TryUpdate_push_succeeded [OF att r] r show ?thesis by simp
  qed
  have check: "lastSafePointTs (mgr (CheckStaleCheckpointTs m changefeedID cp)) = lastSafePointTs m"
    by (simp add: CheckStale_outcome)
  have ignore: "lastSafePointTs (mgr (IgnoreFailedChangeFeed getTime currentTime m cp))
                  = lastSafePointTs m"
    by (simp add: Ignore_mgr)
  from skip fail change check ignore show ?thesis by blast
qed

theorem lastSafePointTs_written_only_on_success_witness:
  "lastSafePointTs (mgr (TryUpdateGCSafePoint gcSafepointUpdateInterval_init
       (env_at (ex_start + seconds 1) (Inr 100)) ex_manager 100 False)) \<noteq> lastSafePointTs ex_manager
   \<and> pushes (TryUpdateGCSafePoint gcSafepointUpdateInterval_init
       (env_at (ex_start + seconds 1) (Inr 100)) ex_manager 100 False) \<noteq> []
   \<and> pushResponse (env_at (ex_start + seconds 1) (Inr 100)) = Inr 100
   \<and> pushResponse (env_at (ex_start + seconds 1) (Inl ContextCanceled)) = Inl ContextCanceled
   \<and> lastSafePointTs (mgr (TryUpdateGCSafePoint gcSafepointUpdateInterval_init
       (env_at (ex_start + seconds 1) (Inl ContextCanceled)) ex_manager 100 False)) = 0
   \<and> sint (time_Since (nowCheck (env_at (ex_start + seconds 2) (Inr 120)))
                       (lastUpdatedTime (ex_manager \<lparr> lastUpdatedTime := ex_start + seconds 1 \<rparr>)))
       < sint gcSafepointUpdateInterval_init
   \<and> lastSafePointTs (mgr (TryUpdateGCSafePoint gcSafepointUpdateInterval_init
       (env_at (ex_start + seconds 2) (Inr 120))
       (ex_manager \<lparr> lastUpdatedTime := ex_start + seconds 1 \<rparr>) 120 False)) = 0"
proof -
  let ?ok = "env_at (ex_start + seconds 1) (Inr 100)"
  let ?ko = "env_at (ex_start + seconds 1) (Inl ContextCanceled)"
  let ?e2 = "env_at (ex_start + seconds 2) (Inr 120)"
  let ?m2 = "ex_manager \<lparr> lastUpdatedTime := ex_start + seconds 1 \<rparr>"
  let ?i = gcSafepointUpdateInterval_init
  have z: "lastSafePointTs ex_manager = 0" "lastSafePointTs ?m2 = 0"
    by (simp_all add: ex_manager_def NewManager_def)
  have changed: "lastSafePointTs (mgr (TryUpdateGCSafePoint ?i ?ok ex_manager 100 False))
                   \<noteq> lastSafePointTs ex_manager"
    by (simp add: TryUpdateGCSafePoint_def Let_def env_at_def ex_manager_def
        NewManager_def sint_time_Since sint_interval_init ex_start_def seconds_def zeroTime_def
        minDuration_def maxDuration_def)
  have ok: "pushResponse ?ok = Inr 100" and ko: "pushResponse ?ko = Inl ContextCanceled"
    by (simp_all add: env_at_def)
  have early: "sint (time_Since (nowCheck ?e2) (lastUpdatedTime ?m2)) < sint ?i"
    by (simp add: sint_interval_init sint_time_Since env_at_def
        ex_start_def seconds_def minDuration_def maxDuration_def)
  from lastSafePointTs_written_only_on_success [of ?i ?ok ex_manager 100 False "''cf''" GetTimeFromTS "Inr ex_start"] changed
  have r1: "pushes (TryUpdateGCSafePoint ?i ?ok ex_manager 100 False) \<noteq> []"
    by blast
  from lastSafePointTs_written_only_on_success [of ?i ?ko ex_manager 100 False "''cf''" GetTimeFromTS "Inr ex_start"] ko z
  have r2: "lastSafePointTs (mgr (TryUpdateGCSafePoint ?i ?ko ex_manager 100 False)) = 0"
    by simp
  from lastSafePointTs_written_only_on_success [of ?i ?e2 ?m2 120 False "''cf''" GetTimeFromTS "Inr ex_start"] early z
  have r3: "lastSafePointTs (mgr (TryUpdateGCSafePoint ?i ?e2 ?m2 120 False)) = 0"
    by simp
  from changed r1 ok ko r2 early r3 show ?thesis by blast
qed

text \<open>
  Claim C6. \<open>IgnoreFailedChangeFeed\<close> returns \<open>false\<close> when the PD clock cannot be read.
  When it can, it returns \<open>true\<close> exactly when the PD time minus the instant of
  \<open>checkpointTs - 1\<close> is strictly more than 24 hours. That window is the package
  constant, and the result does not depend on the TTL field of the manager.
\<close>

theorem IgnoreFailedChangeFeed_iff:
  "ret (IgnoreFailedChangeFeed getTime (Inl err) m cp) = False
   \<and> (ret (IgnoreFailedChangeFeed getTime (Inr pdTime) m cp)
        \<longleftrightarrow> 24 * 3600 * 1000000000 < pdTime - getTime (cp - 1))
   \<and> sint const_gcTTL = 24 * 3600 * 1000000000
   \<and> ret (IgnoreFailedChangeFeed getTime currentTime (m \<lparr> gcTTL := ttlSeconds \<rparr>) cp)
       = ret (IgnoreFailedChangeFeed getTime currentTime m cp)"
proof -
  have "ret (IgnoreFailedChangeFeed getTime currentTime (m \<lparr> gcTTL := ttlSeconds \<rparr>) cp)
          = ret (IgnoreFailedChangeFeed getTime currentTime m cp)"
    by (cases currentTime) (simp_all add: Ignore_clock_failed Ignore_clock_read)
  moreover have "ret (IgnoreFailedChangeFeed getTime (Inr pdTime) m cp)
                 \<longleftrightarrow> 24 * 3600 * 1000000000 < pdTime - getTime (cp - 1)"
    by (simp add: Ignore_clock_read age_exceeds_iff)
  moreover have "sint const_gcTTL = 24 * 3600 * 1000000000"
    by (simp add: sint_const_gcTTL)
  moreover have "ret (IgnoreFailedChangeFeed getTime (Inl err) m cp) = False"
    by (simp add: Ignore_clock_failed)
  ultimately show ?thesis by blast
qed

theorem IgnoreFailedChangeFeed_iff_witness:
  "GetTimeFromTS (ComposeTS (1700000000000 - 25 * 3600 * 1000) 0 + 1 - 1)
     = ex_start - seconds (25 * 3600)
   \<and> ret (IgnoreFailedChangeFeed GetTimeFromTS (Inr ex_start) ex_manager
            (ComposeTS (1700000000000 - 25 * 3600 * 1000) 0 + 1)) = True
   \<and> GetTimeFromTS (ComposeTS (1700000000000 - 23 * 3600 * 1000) 0 + 1 - 1)
       = ex_start - seconds (23 * 3600)
   \<and> ret (IgnoreFailedChangeFeed GetTimeFromTS (Inr ex_start) ex_manager
            (ComposeTS (1700000000000 - 23 * 3600 * 1000) 0 + 1)) = False
   \<and> ret (IgnoreFailedChangeFeed GetTimeFromTS (Inl (OtherFailure ''pd unavailable'')) ex_manager
            (ComposeTS (1700000000000 - 25 * 3600 * 1000) 0 + 1)) = False"
proof -
  let ?old = "ComposeTS (1700000000000 - 25 * 3600 * 1000) 0 + 1"
  let ?new = "ComposeTS (1700000000000 - 23 * 3600 * 1000) 0 + 1"
  have a: "GetTimeFromTS (?old - 1) = ex_start - seconds (25 * 3600)"
    by (simp add: GetTimeFromTS_def ComposeTS_def drop_bit_eq_div ex_start_def seconds_def)
  have b: "GetTimeFromTS (?new - 1) = ex_start - seconds (23 * 3600)"
    by (simp add: GetTimeFromTS_def ComposeTS_def drop_bit_eq_div ex_start_def seconds_def)
  have a': "(24 * 3600 * 1000000000 :: int) < ex_start - (ex_start - seconds (25 * 3600))"
    by (simp add: seconds_def)
  have b': "\<not> (24 * 3600 * 1000000000 :: int) < ex_start - (ex_start - seconds (23 * 3600))"
    by (simp add: seconds_def)
  from IgnoreFailedChangeFeed_iff [of GetTimeFromTS "OtherFailure ''pd unavailable''" ex_manager ?old ex_start]
    a a'
  have r1: "ret (IgnoreFailedChangeFeed GetTimeFromTS (Inr ex_start) ex_manager ?old) = True"
    and r3: "ret (IgnoreFailedChangeFeed GetTimeFromTS
                   (Inl (OtherFailure ''pd unavailable'')) ex_manager ?old) = False"
    by simp_all
  from IgnoreFailedChangeFeed_iff [of GetTimeFromTS "OtherFailure ''pd unavailable''" ex_manager ?new ex_start]
    b b'
  have r2: "ret (IgnoreFailedChangeFeed GetTimeFromTS (Inr ex_start) ex_manager ?new) = False"
    by simp
  from a b r1 r2 r3 show ?thesis by blast
qed

text \<open>
  Claim C7. With \<open>forceUpdate\<close> set, a call sends its request to PD and records the
  attempt whatever \<open>lastUpdatedTime\<close> and the clock are.
\<close>

theorem TryUpdateGCSafePoint_forced:
  "pushes (TryUpdateGCSafePoint interval env m cp True)
     = [\<lparr> reqServiceID = gcServiceID m, reqTTL = gcTTL m, reqSafePoint = cp \<rparr>]
   \<and> lastUpdatedTime (mgr (TryUpdateGCSafePoint interval env m cp True)) = nowAttempt env"
proof (cases "pushResponse env")
  case (Inl err)
  then show ?thesis by (simp add: TryUpdate_push_failed)
next
  case (Inr actual)
  then show ?thesis by (simp add: TryUpdate_push_succeeded)
qed

theorem TryUpdateGCSafePoint_forced_witness:
  "sint (time_Since (nowCheck (env_at (ex_start + seconds 2) (Inr 120)))
                    (lastUpdatedTime (ex_manager \<lparr> lastUpdatedTime := ex_start + seconds 1 \<rparr>)))
     < sint gcSafepointUpdateInterval_init
   \<and> pushes (TryUpdateGCSafePoint gcSafepointUpdateInterval_init
               (env_at (ex_start + seconds 2) (Inr 120))
               (ex_manager \<lparr> lastUpdatedTime := ex_start + seconds 1 \<rparr>) 120 True)
       = [\<lparr> reqServiceID = ''ticdc'', reqTTL = 86400, reqSafePoint = 120 \<rparr>]"
proof -
  let ?e = "env_at (ex_start + seconds 2) (Inr 120)"
  let ?m = "ex_manager \<lparr> lastUpdatedTime := ex_start + seconds 1 \<rparr>"
  have a: "sint (time_Since (nowCheck ?e) (lastUpdatedTime ?m)) < sint gcSafepointUpdateInterval_init"
    by (simp add: sint_interval_init sint_time_Since env_at_def
        ex_start_def seconds_def minDuration_def maxDuration_def)
  have c: "gcServiceID ?m = ''ticdc'' \<and> gcTTL ?m = 86400"
    by (simp add: ex_manager_def NewManager_def)
  from TryUpdateGCSafePoint_forced [of gcSafepointUpdateInterval_init ?e ?m 120] a c show ?thesis by simp
qed

text \<open>
  Claim C8 as stated fails: a push cancelled five seconds after the last success, with a
  TTL of one day, makes \<open>TryUpdateGCSafePoint\<close> return \<open>nil\<close>, not an error.
\<close>

theorem TryUpdateGCSafePoint_cancelled_returns_nil:
  "pushResponse (env_at (ex_start + seconds 5) (Inl ContextCanceled)) = Inl ContextCanceled
   \<and> pushes (TryUpdateGCSafePoint gcSafepointUpdateInterval_init
               (env_at (ex_start + seconds 5) (Inl ContextCanceled)) ex_manager 100 False)
       = [\<lparr> reqServiceID = ''ticdc'', reqTTL = 86400, reqSafePoint = 100 \<rparr>]
   \<and> ret (TryUpdateGCSafePoint gcSafepointUpdateInterval_init
            (env_at (ex_start + seconds 5) (Inl ContextCanceled)) ex_manager 100 False)
       = None"
  by (simp add: TryUpdateGCSafePoint_def Let_def env_at_def ex_manager_def
      NewManager_def sint_time_Since sint_interval_init ex_start_def seconds_def zeroTime_def
      minDuration_def maxDuration_def Second_def Millisecond_def Nanosecond_def)

text \<open>
  Claim C8, amended. When the push is attempted and \<open>SetServiceGCSafepoint\<close> answers with
  the cancellation of the context, the call treats it as any other failure of the push:
  it returns \<open>ErrUpdateServiceSafepointFailed\<close> wrapping the cancellation when the time
  since \<open>lastSucceededTime\<close> has reached the TTL as a duration, and \<open>nil\<close> before that.
  In both cases \<open>lastSucceededTime\<close> and \<open>lastSafePointTs\<close> are not changed.
\<close>

theorem TryUpdateGCSafePoint_cancelled:
  assumes attempted:
      "forceUpdate \<or> sint interval \<le> sint (time_Since (nowCheck env) (lastUpdatedTime m))"
    and cancelled: "pushResponse env = Inl ContextCanceled"
  shows "ret (TryUpdateGCSafePoint interval env m cp forceUpdate)
           = (if sint (Second * gcTTL m)
                   \<le> sint (time_Since (nowFailure env) (lastSucceededTime m))
              then Some (ErrUpdateServiceSafepointFailed ContextCanceled) else None)
       \<and> lastSucceededTime (mgr (TryUpdateGCSafePoint interval env m cp forceUpdate))
           = lastSucceededTime m
       \<and> lastSafePointTs (mgr (TryUpdateGCSafePoint interval env m cp forceUpdate))
           = lastSafePointTs m"
  by (simp add: TryUpdate_push_failed [OF attempted cancelled])

theorem TryUpdateGCSafePoint_cancelled_witness:
  "(False \<or> sint gcSafepointUpdateInterval_init
       \<le> sint (time_Since (nowCheck (env_at (ex_start + seconds 90000) (Inl ContextCanceled)))
                            (lastUpdatedTime ex_manager)))
   \<and> pushResponse (env_at (ex_start + seconds 90000) (Inl ContextCanceled)) = Inl ContextCanceled
   \<and> ret (TryUpdateGCSafePoint gcSafepointUpdateInterval_init
            (env_at (ex_start + seconds 90000) (Inl ContextCanceled)) ex_manager 100 False)
       = Some (ErrUpdateServiceSafepointFailed ContextCanceled)
   \<and> lastSucceededTime (mgr (TryUpdateGCSafePoint gcSafepointUpdateInterval_init
            (env_at (ex_start + seconds 90000) (Inl ContextCanceled)) ex_manager 100 False))
       = ex_start
   \<and> lastSafePointTs (mgr (TryUpdateGCSafePoint gcSafepointUpdateInterval_init
            (env_at (ex_start + seconds 90000) (Inl ContextCanceled)) ex_manager 100 False))
       = 0"
proof -
  let ?e = "env_at (ex_start + seconds 90000) (Inl ContextCanceled)"
  have a: "False \<or> sint gcSafepointUpdateInterval_init
             \<le> sint (time_Since (nowCheck ?e) (lastUpdatedTime ex_manager))"
    by (simp add: sint_interval_init sint_time_Since env_at_def ex_manager_def NewManager_def
        ex_start_def seconds_def zeroTime_def minDuration_def maxDuration_def)
  have b: "pushResponse ?e = Inl ContextCanceled"
    by (simp add: env_at_def)
  have c: "sint (Second * gcTTL ex_manager)
             \<le> sint (time_Since (nowFailure ?e) (lastSucceededTime ex_manager))"
    by (simp add: sint_time_Since env_at_def ex_manager_def NewManager_def
        ex_start_def seconds_def minDuration_def maxDuration_def
        Second_def Millisecond_def Nanosecond_def)
  have d: "lastSucceededTime ex_manager = ex_start" "lastSafePointTs ex_manager = 0"
    by (simp_all add: ex_manager_def NewManager_def)
  from TryUpdateGCSafePoint_cancelled [OF a b, of 100] a b c d show ?thesis by simp
qed

text \<open>
  Claim C9. For the checkpoint 0 the upper bound \<open>checkpointTs - 1\<close> wraps to
  \<open>2 ^ 64 - 1\<close>, which is below no stored safepoint, so \<open>CheckStaleCheckpointTs\<close> succeeds
  whatever the manager holds.
\<close>

theorem CheckStaleCheckpointTs_zero:
  "uint ((0 :: Ts) - 1) = 2 ^ 64 - 1
   \<and> \<not> (0 :: Ts) - 1 < lastSafePointTs m
   \<and> CheckStaleCheckpointTs m changefeedID 0
       = \<lparr> mgr = m, ret = None, pushes = [], logs = [] \<rparr>"
proof -
  have "uint ((0 :: Ts) - 1) = 2 ^ 64 - 1"
    by (simp add: unsigned_minus_1_eq_mask mask_eq_exp_minus_1)
  moreover have "\<not> (0 :: Ts) - 1 < lastSafePointTs m"
    by (simp add: not_less)
  ultimately show ?thesis
    by (simp add: CheckStale_outcome)
qed

text \<open>
  Claim C10. A skipped call leaves the whole manager as it was, \<open>lastUpdatedTime\<close>
  included, so the call after it behaves as if the skipped call had not been made. A call
  made once the update interval has elapsed since \<open>lastUpdatedTime\<close>, by the value of
  \<open>time.Since\<close> or by the clock itself, sends its request whether forced or not.
\<close>

theorem TryUpdateGCSafePoint_skip_frame:
  "(sint (time_Since (nowCheck env) (lastUpdatedTime m)) < sint interval \<longrightarrow>
      mgr (TryUpdateGCSafePoint interval env m cp False) = m
      \<and> pushes (TryUpdateGCSafePoint interval env m cp False) = []
      \<and> TryUpdateGCSafePoint interval env' (mgr (TryUpdateGCSafePoint interval env m cp False))
          cp' forceUpdate
         = TryUpdateGCSafePoint interval env' m cp' forceUpdate)
   \<and> (sint interval \<le> sint (time_Since (nowCheck env) (lastUpdatedTime m)) \<longrightarrow>
      pushes (TryUpdateGCSafePoint interval env m cp forceUpdate)
        = [\<lparr> reqServiceID = gcServiceID m, reqTTL = gcTTL m, reqSafePoint = cp \<rparr>])
   \<and> (lastUpdatedTime m + sint interval \<le> nowCheck env \<longrightarrow>
      pushes (TryUpdateGCSafePoint interval env m cp forceUpdate)
        = [\<lparr> reqServiceID = gcServiceID m, reqTTL = gcTTL m, reqSafePoint = cp \<rparr>])"
proof -
  let ?req = "\<lparr> reqServiceID = gcServiceID m, reqTTL = gcTTL m, reqSafePoint = cp \<rparr>"
  have skip: "TryUpdateGCSafePoint interval env m cp False
              = \<lparr> mgr = m, ret = None, pushes = [], logs = [] \<rparr>"
    if "sint (time_Since (nowCheck env) (lastUpdatedTime m)) < sint interval"
    using that by (simp add: TryUpdate_skipped)
  have due: "pushes (TryUpdateGCSafePoint interval env m cp forceUpdate) = [?req]"
    if h: "sint interval \<le> sint (time_Since (nowCheck env) (lastUpdatedTime m))"
  proof (cases "pushResponse env")
    case (Inl err)
    with h show ?thesis by (simp add: TryUpdate_push_failed)
  next
    case (Inr actual)
    with h show ?thesis by (simp add: TryUpdate_push_succeeded)
  qed
  have elapsed: "sint interval \<le> sint (time_Since (nowCheck env) (lastUpdatedTime m))"
    if "lastUpdatedTime m + sint interval \<le> nowCheck env"
  proof -
    have "sint interval \<le> maxDuration"
      using sint_range64 [of interval] by simp
    moreover from that have "sint interval \<le> nowCheck env - lastUpdatedTime m"
      by simp
    ultimately show ?thesis
      unfolding sint_time_Since by (rule saturated_ge)
  qed
  from skip due elapsed show ?thesis by simp
qed

theorem TryUpdateGCSafePoint_skip_frame_witness:
  "sint (time_Since (nowCheck (env_at (ex_start + seconds 31) (Inr 130)))
                    (lastUpdatedTime (ex_manager \<lparr> lastUpdatedTime := ex_start + seconds 1 \<rparr>)))
     < sint gcSafepointUpdateInterval_init
   \<and> mgr (TryUpdateGCSafePoint gcSafepointUpdateInterval_init
            (env_at (ex_start + seconds 31) (Inr 130))
            (ex_manager \<lparr> lastUpdatedTime := ex_start + seconds 1 \<rparr>) 130 False)
       = ex_manager \<lparr> lastUpdatedTime := ex_start + seconds 1 \<rparr>
   \<and> lastUpdatedTime (ex_manager \<lparr> lastUpdatedTime := ex_start + seconds 1 \<rparr>)
         + sint gcSafepointUpdateInterval_init
       \<le> nowCheck (env_at (ex_start + seconds 61) (Inr 160))
   \<and> sint (time_Since (nowCheck (env_at (ex_start + seconds 61) (Inr 160)))
                       (nowCheck (env_at (ex_start + seconds 31) (Inr 130))))
       < sint gcSafepointUpdateInterval_init
   \<and> pushes (TryUpdateGCSafePoint gcSafepointUpdateInterval_init
               (env_at (ex_start + seconds 61) (Inr 160))
               (mgr (TryUpdateGCSafePoint gcSafepointUpdateInterval_init
                       (env_at (ex_start + seconds 31) (Inr 130))
                       (ex_manager \<lparr> lastUpdatedTime := ex_start + seconds 1 \<rparr>) 130 False))
               160 False)
       = [\<lparr> reqServiceID = ''ticdc'', reqTTL = 86400, reqSafePoint = 160 \<rparr>]"
proof -
  let ?m = "ex_manager \<lparr> lastUpdatedTime := ex_start + seconds 1 \<rparr>"
  let ?e1 = "env_at (ex_start + seconds 31) (Inr 130)"
  let ?e2 = "env_at (ex_start + seconds 61) (Inr 160)"
  let ?i = gcSafepointUpdateInterval_init
  have early: "sint (time_Since (nowCheck ?e1) (lastUpdatedTime ?m)) < sint ?i"
    by (simp add: sint_interval_init sint_time_Since env_at_def
        ex_start_def seconds_def minDuration_def maxDuration_def)
  have due: "lastUpdatedTime ?m + sint ?i \<le> nowCheck ?e2"
    by (simp add: sint_interval_init env_at_def ex_start_def seconds_def)
  have close: "sint (time_Since (nowCheck ?e2) (nowCheck ?e1)) < sint ?i"
    by (simp add: sint_interval_init sint_time_Since env_at_def
        ex_start_def seconds_def minDuration_def maxDuration_def)
  have ids: "gcServiceID ?m = ''ticdc''" "gcTTL ?m = 86400"
    by (simp_all add: ex_manager_def NewManager_def)
  from TryUpdateGCSafePoint_skip_frame [of ?e1 ?m ?i 130 ?e2 160 False] early
  have r1: "mgr (TryUpdateGCSafePoint ?i ?e1 ?m 130 False) = ?m"
    by blast
  from TryUpdateGCSafePoint_skip_frame [of ?e2 ?m ?i 160 ?e2 160 False] due ids
  have r2: "pushes (TryUpdateGCSafePoint ?i ?e2 ?m 160 False)
              = [\<lparr> reqServiceID = ''ticdc'', reqTTL = 86400, reqSafePoint = 160 \<rparr>]"
    by simp
  from early r1 due close r2 show ?thesis by simp
qed

end
